theory Spec2Isabelle
  imports Main
begin

section \<open>JavaScript values\<close>

text \<open>
  The values that flow through \<^verbatim>\<open>MetamaskInpageProvider.js\<close>. Objects are finite
  property tables, modelled as maps from property names; arrays are lists. Numbers are
  restricted to integer values. A function value carries an identity and its own
  properties. Values have no reference identity: two structurally equal objects are
  the same value.
\<close>

datatype jsval =
    Undefined
  | Null
  | JBool bool
  | JNum int
  | JStr string
  | JArr "jsval list"
  | JObj "string \<Rightarrow> jsval option"
  | JFun nat "string \<Rightarrow> jsval option"

datatype jstype = TUndefined | TObject | TBoolean | TNumber | TString | TFunction

text \<open>The \<^verbatim>\<open>typeof\<close> operator; \<^verbatim>\<open>typeof null\<close> and \<^verbatim>\<open>typeof []\<close> are \<^verbatim>\<open>'object'\<close>.\<close>

fun typeof :: "jsval \<Rightarrow> jstype" where
  "typeof Undefined = TUndefined"
| "typeof Null = TObject"
| "typeof (JBool b) = TBoolean"
| "typeof (JNum n) = TNumber"
| "typeof (JStr s) = TString"
| "typeof (JArr xs) = TObject"
| "typeof (JObj m) = TObject"
| "typeof (JFun f m) = TFunction"

text \<open>\<^verbatim>\<open>Array.isArray\<close>.\<close>

fun isArray :: "jsval \<Rightarrow> bool" where
  "isArray (JArr xs) = True"
| "isArray v = False"

text \<open>Truthiness, as tested by \<^verbatim>\<open>if (v)\<close>, \<^verbatim>\<open>!v\<close> and \<^verbatim>\<open>v || w\<close>.\<close>

fun truthy :: "jsval \<Rightarrow> bool" where
  "truthy Undefined = False"
| "truthy Null = False"
| "truthy (JBool b) = b"
| "truthy (JNum n) = (n \<noteq> 0)"
| "truthy (JStr s) = (s \<noteq> [])"
| "truthy (JArr xs) = True"
| "truthy (JObj m) = True"
| "truthy (JFun f m) = True"

text \<open>The operator \<^verbatim>\<open>a || b\<close>.\<close>

definition js_or :: "jsval \<Rightarrow> jsval \<Rightarrow> jsval" where
  "js_or a b = (if truthy a then a else b)"

datatype request_message =
    ExpectedObjectArgument    \<comment> \<open>\<^verbatim>\<open>Expected a single, non-array, object argument.\<close>\<close>
  | MethodMustBeNonEmptyString \<comment> \<open>\<^verbatim>\<open>'args.method' must be a non-empty string\<close>\<close>

text \<open>
  What the source throws: the engine's \<^verbatim>\<open>TypeError\<close> (a property read of
  \<^verbatim>\<open>null\<close> or \<^verbatim>\<open>undefined\<close>, a property write to a primitive in strict code),
  \<^verbatim>\<open>ethErrors.rpc.invalidRequest({ message, data })\<close>, and \<^verbatim>\<open>new Error(text)\<close>.
\<close>

datatype error =
    TypeError
  | InvalidRequest request_message jsval
  | Error string

text \<open>A table lookup \<^verbatim>\<open>obj[key]\<close> on an object's own properties: a missing key reads as \<^verbatim>\<open>undefined\<close>.\<close>

definition ownProp :: "(string \<Rightarrow> jsval option) \<Rightarrow> string \<Rightarrow> jsval" where
  "ownProp m k = (case m k of None \<Rightarrow> Undefined | Some v \<Rightarrow> v)"

text \<open>
  \<^verbatim>\<open>null\<close> and \<^verbatim>\<open>undefined\<close>: a property read \<^verbatim>\<open>v.key\<close> or a destructuring of
  one of them throws a \<^verbatim>\<open>TypeError\<close>.
\<close>

definition nullish :: "jsval \<Rightarrow> bool" where
  "nullish v = (v = Undefined \<or> v = Null)"

text \<open>
  The property read \<^verbatim>\<open>v.key\<close> on a value other than \<^verbatim>\<open>null\<close> and \<^verbatim>\<open>undefined\<close>,
  for the property names the source reads (\<^verbatim>\<open>method\<close>, \<^verbatim>\<open>params\<close>, \<^verbatim>\<open>jsonrpc\<close>,
  \<^verbatim>\<open>id\<close>, \<^verbatim>\<open>result\<close>, \<^verbatim>\<open>chainId\<close>, \<^verbatim>\<open>networkVersion\<close>, \<^verbatim>\<open>isUnlocked\<close>,
  \<^verbatim>\<open>accounts\<close>), none of which arrays or boxed primitives inherit.
\<close>

fun field :: "jsval \<Rightarrow> string \<Rightarrow> jsval" where
  "field (JObj m) k = ownProp m k"
| "field (JFun f m) k = ownProp m k"
| "field v k = Undefined"

text \<open>\<^verbatim>\<open>s.startsWith(p)\<close> on a string value.\<close>

fun startsWith :: "jsval \<Rightarrow> string \<Rightarrow> bool" where
  "startsWith (JStr s) p = (take (length p) s = p)"
| "startsWith v p = False"

text \<open>
  Modelled from the spec: \<^verbatim>\<open>dequal\<close> is the package \<^verbatim>\<open>fast-deep-equal\<close>, which is
  not part of the sources; the specification describes it as deep value equality,
  sensitive to order and content and not to reference. On the values above that is
  equality of values (object tables compare by key and value, arrays by position).
\<close>

definition dequal :: "jsval \<Rightarrow> jsval \<Rightarrow> bool" where
  "dequal a b = (a = b)"

section \<open>Callbacks, effects and the provider state\<close>

text \<open>
  The functions handed to \<^verbatim>\<open>_rpcRequest\<close> and to the RPC engine:
  a function of the consumer, the result of \<^verbatim>\<open>getRpcPromiseCallback(resolve, reject, unwrapResult)\<close>,
  \<^verbatim>\<open>NOOP\<close>, and the closure that \<^verbatim>\<open>_rpcRequest\<close> builds for the account methods,
  which captures \<^verbatim>\<open>payload\<close>, \<^verbatim>\<open>isInternal\<close> and \<^verbatim>\<open>callback\<close>.
\<close>

datatype callback =
    Consumer nat
  | RpcPromiseCallback bool
  | NOOP
  | AccountsCallback jsval bool callback

datatype log_message =
    InvalidAccountsParameter    \<comment> \<open>\<^verbatim>\<open>MetaMask: Received invalid accounts parameter. Please report this bug.\<close>\<close>
  | EthAccountsUpdatedAccounts  \<comment> \<open>\<^verbatim>\<open>MetaMask: 'eth_accounts' unexpectedly updated accounts. Please report this bug.\<close>\<close>
  | InvalidNetworkParameters    \<comment> \<open>\<^verbatim>\<open>MetaMask: Received invalid network parameters. Please report this bug.\<close>\<close>
  | InvalidIsUnlockedParameter  \<comment> \<open>\<^verbatim>\<open>MetaMask: Received invalid isUnlocked parameter. Please report this bug.\<close>\<close>
  | FailedInitialState          \<comment> \<open>\<^verbatim>\<open>MetaMask: Failed to get initial state. Please report this bug.\<close>\<close>
  | EnableDeprecation           \<comment> \<open>\<^verbatim>\<open>messages.warnings.enableDeprecation\<close>\<close>
  | SendDeprecation             \<comment> \<open>\<^verbatim>\<open>messages.warnings.sendDeprecation\<close>\<close>

text \<open>
  Everything the provider does to the outside, in the order it does it:
  \<^verbatim>\<open>this.emit(name, payload)\<close>, \<^verbatim>\<open>log.error(message, ...data)\<close>,
  \<^verbatim>\<open>log.error(message, error)\<close> with a caught error, \<^verbatim>\<open>log.warn(message)\<close>,
  \<^verbatim>\<open>logStreamDisconnectWarning(streamName, err)\<close>, \<^verbatim>\<open>this._rpcEngine.handle(payload, cb)\<close>
  and the call \<^verbatim>\<open>callback(err, res)\<close> of a function that is not the provider's own.
\<close>

datatype effect =
    Emit string jsval
  | LogError log_message "jsval list"
  | LogThrown log_message error
  | LogWarn log_message
  | StreamDisconnectWarning jsval jsval
  | Handle jsval callback
  | Call callback jsval jsval

text \<open>
  The fields of the provider object. \<^verbatim>\<open>_state.isConnected\<close> is \<^verbatim>\<open>null\<close>, \<^verbatim>\<open>true\<close> or
  \<^verbatim>\<open>false\<close>; \<^verbatim>\<open>_state.isUnlocked\<close> is a boolean; \<^verbatim>\<open>web3DefaultAccount\<close> is
  \<^verbatim>\<open>window.web3.eth.defaultAccount\<close> when the page has an object \<^verbatim>\<open>window.web3.eth\<close>
  (\<^verbatim>\<open>_web3Ref\<close> is \<^verbatim>\<open>undefined\<close> throughout the file). The field \<^verbatim>\<open>effects\<close>
  records the effects so far, oldest first.
\<close>

record provider =
  isConnected :: "bool option"
  accounts :: jsval
  isUnlocked :: bool
  sentWarningsEnable :: bool
  sentWarningsSend :: bool
  selectedAddress :: jsval
  networkVersion :: jsval
  chainId :: jsval
  web3DefaultAccount :: "jsval option"
  effects :: "effect list"

text \<open>The fields as the constructor sets them (lines 52-80).\<close>

definition initial_state :: "jsval option \<Rightarrow> provider" where
  "initial_state web3 =
     \<lparr> isConnected = None, accounts = Null, isUnlocked = False,
       sentWarningsEnable = False, sentWarningsSend = False,
       selectedAddress = Null, networkVersion = Null, chainId = Null,
       web3DefaultAccount = web3, effects = [] \<rparr>"

definition perform :: "effect \<Rightarrow> provider \<Rightarrow> provider" where
  "perform e s = s\<lparr>effects := effects s @ [e]\<rparr>"

text \<open>
  \<^verbatim>\<open>this.emit(name, payload)\<close>. The listeners of the consumer are outside the model; the
  provider's own listener (lines 110-112) sets \<^verbatim>\<open>_state.isConnected\<close> on \<^verbatim>\<open>connect\<close>.
\<close>

definition emit :: "string \<Rightarrow> jsval \<Rightarrow> provider \<Rightarrow> provider" where
  "emit name payload s =
     (let s1 = perform (Emit name payload) s
      in if name = ''connect'' then s1\<lparr>isConnected := Some True\<rparr> else s1)"

section \<open>The handlers\<close>

text \<open>\<^verbatim>\<open>_accounts\<close> of \<^verbatim>\<open>_handleAccountsChanged\<close> (lines 368-377): the argument if it is an array, else \<^verbatim>\<open>[]\<close>.\<close>

definition appliedAccounts :: "jsval \<Rightarrow> jsval list" where
  "appliedAccounts accs = (case accs of JArr xs \<Rightarrow> xs | _ \<Rightarrow> [])"

text \<open>\<^verbatim>\<open>_accounts[0]\<close>: \<^verbatim>\<open>undefined\<close> on the empty array.\<close>

definition firstAccount :: "jsval list \<Rightarrow> jsval" where
  "firstAccount xs = (case xs of [] \<Rightarrow> Undefined | a # _ \<Rightarrow> a)"

text \<open>
  \<^verbatim>\<open>_handleAccountsChanged(accounts, isEthAccounts = false, isInternal = false)\<close>, lines 366-411.
  The comparison \<^verbatim>\<open>this.selectedAddress !== _accounts[0]\<close> is by value here; on an
  object (which is truthy) both of its branches leave the same value in the field.
\<close>

definition handleAccountsChanged :: "jsval \<Rightarrow> bool \<Rightarrow> bool \<Rightarrow> provider \<Rightarrow> provider" where
  "handleAccountsChanged accs isEthAccounts isInternal s =
     (let s1 = (if \<not> isArray accs then perform (LogError InvalidAccountsParameter [accs]) s else s);
          xs = appliedAccounts accs;
          s2 = (if \<not> dequal (accounts s1) (JArr xs)
                then let s' = (if isEthAccounts \<and> accounts s1 \<noteq> Null \<and> \<not> isInternal
                               then perform (LogError EthAccountsUpdatedAccounts [JArr xs]) s1
                               else s1)
                     in emit ''accountsChanged'' (JArr xs) (s'\<lparr>accounts := JArr xs\<rparr>)
                else s1);
          s3 = (if selectedAddress s2 \<noteq> firstAccount xs
                then s2\<lparr>selectedAddress := js_or (firstAccount xs) Null\<rparr>
                else s2)
      in s3\<lparr>web3DefaultAccount := map_option (\<lambda>_. selectedAddress s3) (web3DefaultAccount s3)\<rparr>)"

text \<open>
  The parameter \<^verbatim>\<open>{ chainId, networkVersion } = {}\<close> of \<^verbatim>\<open>_handleChainChanged\<close>: the
  default stands in for \<^verbatim>\<open>undefined\<close> only; destructuring \<^verbatim>\<open>null\<close> throws.
\<close>

definition networkInfo :: "jsval \<Rightarrow> error + (jsval \<times> jsval)" where
  "networkInfo arg =
     (let obj = (if arg = Undefined then JObj Map.empty else arg)
      in if nullish obj then Inl TypeError
         else Inr (field obj ''chainId'', field obj ''networkVersion''))"

text \<open>The test of lines 427-430.\<close>

definition invalidNetwork :: "jsval \<Rightarrow> jsval \<Rightarrow> bool" where
  "invalidNetwork c n =
     (typeof c \<noteq> TString \<or> \<not> startsWith c ''0x'' \<or> typeof n \<noteq> TString)"

text \<open>The body of \<^verbatim>\<open>_handleChainChanged\<close>, lines 427-445, on the destructured pair.\<close>

definition applyChainInfo :: "jsval \<Rightarrow> jsval \<Rightarrow> provider \<Rightarrow> provider" where
  "applyChainInfo c n s =
     (if invalidNetwork c n
      then perform (LogError InvalidNetworkParameters
                      [JObj [''chainId'' \<mapsto> c, ''networkVersion'' \<mapsto> n]]) s
      else if c \<noteq> chainId s \<or> n \<noteq> networkVersion s
      then let s1 = s\<lparr>chainId := c\<rparr>;
               s2 = emit ''chainChanged'' (chainId s1) s1;
               s3 = emit ''chainIdChanged'' (chainId s2) s2;
               s4 = s3\<lparr>networkVersion := n\<rparr>
           in emit ''networkChanged'' (networkVersion s4) s4
      else s)"

text \<open>\<^verbatim>\<open>_handleChainChanged\<close>: the outcome (a thrown error or a normal return) and the state after.\<close>

definition handleChainChanged :: "jsval \<Rightarrow> provider \<Rightarrow> (error + unit) \<times> provider" where
  "handleChainChanged arg s =
     (case networkInfo arg of
        Inl e \<Rightarrow> (Inl e, s)
      | Inr (c, n) \<Rightarrow> (Inr (), applyChainInfo c n s))"

text \<open>
  Lines 319-321 on the property table of the payload: \<^verbatim>\<open>if (!payload.jsonrpc) payload.jsonrpc = '2.0'\<close>.
\<close>

definition defaultJsonrpc :: "(string \<Rightarrow> jsval option) \<Rightarrow> (string \<Rightarrow> jsval option)" where
  "defaultJsonrpc m =
     (if \<not> truthy (ownProp m ''jsonrpc'') then m(''jsonrpc'' \<mapsto> JStr ''2.0'') else m)"

text \<open>
  Lines 315 and 323-337: \<^verbatim>\<open>cb\<close> is \<^verbatim>\<open>callback\<close>, or for the two account methods the
  closure over \<^verbatim>\<open>payload\<close>, \<^verbatim>\<open>isInternal\<close> and \<^verbatim>\<open>callback\<close>.
\<close>

definition accountsIntercept :: "jsval \<Rightarrow> callback \<Rightarrow> bool \<Rightarrow> callback" where
  "accountsIntercept payload callback isInternal =
     (if field payload ''method'' = JStr ''eth_accounts'' \<or>
         field payload ''method'' = JStr ''eth_requestAccounts''
      then AccountsCallback payload isInternal callback
      else callback)"

text \<open>
  \<^verbatim>\<open>_rpcRequest(payload, callback, isInternal = false)\<close>, lines 313-340. The payload is
  an object of the caller that the method writes to, so the model returns it as it is
  after the call, next to the state; \<^verbatim>\<open>Inl\<close> is a thrown error. On \<^verbatim>\<open>null\<close> and
  \<^verbatim>\<open>undefined\<close> the read of \<^verbatim>\<open>payload.jsonrpc\<close> throws; on a boolean, a number or a
  string the read gives \<^verbatim>\<open>undefined\<close> and the write throws, the class body being
  strict code.
\<close>

fun rpcRequest :: "jsval \<Rightarrow> callback \<Rightarrow> bool \<Rightarrow> provider \<Rightarrow> (error + jsval) \<times> provider" where
  "rpcRequest (JArr reqs) callback isInternal s =
     (Inr (JArr reqs), perform (Handle (JArr reqs) callback) s)"
| "rpcRequest (JObj m) callback isInternal s =
     (let payload = JObj (defaultJsonrpc m)
      in (Inr payload, perform (Handle payload (accountsIntercept payload callback isInternal)) s))"
| "rpcRequest (JFun f m) callback isInternal s =
     (let payload = JFun f (defaultJsonrpc m)
      in (Inr payload, perform (Handle payload (accountsIntercept payload callback isInternal)) s))"
| "rpcRequest v callback isInternal s = (Inl TypeError, s)"

text \<open>
  The call \<^verbatim>\<open>cb(err, res)\<close> that the RPC engine makes when a response arrives. For the
  closure of lines 329-336 it runs \<^verbatim>\<open>_handleAccountsChanged(res.result || [], payload.method === 'eth_accounts', isInternal)\<close>
  and then \<^verbatim>\<open>callback(err, res)\<close>, reading \<^verbatim>\<open>payload.method\<close> from the payload as
  \<^verbatim>\<open>_rpcRequest\<close> left it; a call of any other function is recorded as an effect.
\<close>

fun invoke :: "callback \<Rightarrow> jsval \<Rightarrow> jsval \<Rightarrow> provider \<Rightarrow> (error + unit) \<times> provider" where
  "invoke (AccountsCallback payload isInternal callback) err res s =
     (if nullish res then (Inl TypeError, s)
      else invoke callback err res
             (handleAccountsChanged (js_or (field res ''result'') (JArr []))
                (field payload ''method'' = JStr ''eth_accounts'') isInternal s))"
| "invoke cb err res s = (Inr (), perform (Call cb err res) s)"

text \<open>
  \<^verbatim>\<open>_handleUnlockStateChanged(isUnlocked)\<close>, lines 455-481. The \<^verbatim>\<open>try\<close> around
  \<^verbatim>\<open>_rpcRequest\<close> discards what it throws.
\<close>

definition handleUnlockStateChanged :: "jsval \<Rightarrow> provider \<Rightarrow> provider" where
  "handleUnlockStateChanged v s =
     (case v of
        JBool b \<Rightarrow>
          if b \<noteq> isUnlocked s
          then let s1 = s\<lparr>isUnlocked := b\<rparr>
               in if b
                  then snd (rpcRequest
                              (JObj [''method'' \<mapsto> JStr ''eth_accounts'', ''params'' \<mapsto> JArr []])
                              NOOP True s1)
                  else handleAccountsChanged (JArr []) False False s1
          else s
      | _ \<Rightarrow> perform (LogError InvalidIsUnlockedParameter []) s)"

text \<open>
  The texts of \<^verbatim>\<open>./messages\<close> that reach a value of the program:
  \<^verbatim>\<open>messages.errors.disconnected()\<close> and \<^verbatim>\<open>messages.errors.unsupportedSync(method)\<close>.
  The module is not part of the sources, so the functions that use it take it as a parameter.
\<close>

record messages =
  disconnected :: string
  unsupportedSync :: "jsval \<Rightarrow> string"

text \<open>\<^verbatim>\<open>disconnectError\<close>, lines 350-353.\<close>

definition disconnectError :: "messages \<Rightarrow> jsval" where
  "disconnectError msgs = JObj [''code'' \<mapsto> JNum 1011, ''reason'' \<mapsto> JStr (disconnected msgs)]"

text \<open>
  \<^verbatim>\<open>_handleDisconnect(streamName, err)\<close>, lines 346-360. The call of
  \<^verbatim>\<open>logStreamDisconnectWarning\<close>, a function of \<^verbatim>\<open>./utils\<close>, is recorded as an effect.
\<close>

definition handleDisconnect :: "messages \<Rightarrow> jsval \<Rightarrow> jsval \<Rightarrow> provider \<Rightarrow> provider" where
  "handleDisconnect msgs streamName err s =
     (let s1 = perform (StreamDisconnectWarning streamName err) s;
          s2 = (if isConnected s1 = Some True
                then emit ''close'' (disconnectError msgs)
                       (emit ''disconnect'' (disconnectError msgs) s1)
                else s1)
      in s2\<lparr>isConnected := Some False\<rparr>)"

section \<open>The methods of the consumer\<close>

text \<open>
  What a call of a public method gives its caller: a thrown error, a promise already
  rejected, a promise that settles when the engine answers, or a returned value.
\<close>

datatype outcome =
    Thrown error
  | Rejected error
  | Pending
  | Returned jsval

text \<open>
  A promise around \<^verbatim>\<open>_rpcRequest\<close>: \<^verbatim>\<open>new Promise((resolve, reject) => { this._rpcRequest(...) })\<close>.
  An error thrown inside the executor rejects the promise.
\<close>

definition promised :: "(error + jsval) \<times> provider \<Rightarrow> outcome \<times> provider" where
  "promised r = (case fst r of Inl e \<Rightarrow> (Rejected e, snd r) | Inr p \<Rightarrow> (Pending, snd r))"

text \<open>
  \<^verbatim>\<open>async request(args)\<close>, lines 219-243. What the body throws rejects the promise; the
  destructuring \<^verbatim>\<open>const { method, params } = args\<close> throws on \<^verbatim>\<open>null\<close>.
\<close>

definition request :: "jsval \<Rightarrow> provider \<Rightarrow> outcome \<times> provider" where
  "request args s =
     (if typeof args \<noteq> TObject \<or> isArray args
      then (Rejected (InvalidRequest ExpectedObjectArgument args), s)
      else if nullish args then (Rejected TypeError, s)
      else let method = field args ''method''; params = field args ''params''
           in if typeof method \<noteq> TString \<or> \<not> truthy method
              then (Rejected (InvalidRequest MethodMustBeNonEmptyString args), s)
              else promised (rpcRequest (JObj [''method'' \<mapsto> method, ''params'' \<mapsto> params])
                               (RpcPromiseCallback True) False s))"

text \<open>\<^verbatim>\<open>sendAsync(payload, cb)\<close>, lines 251-253.\<close>

definition sendAsync :: "jsval \<Rightarrow> callback \<Rightarrow> provider \<Rightarrow> (error + jsval) \<times> provider" where
  "sendAsync payload cb s = rpcRequest payload cb False s"

text \<open>\<^verbatim>\<open>enable()\<close>, lines 594-611.\<close>

definition enable :: "provider \<Rightarrow> outcome \<times> provider" where
  "enable s =
     (let s1 = (if \<not> sentWarningsEnable s
                then (perform (LogWarn EnableDeprecation) s)\<lparr>sentWarningsEnable := True\<rparr>
                else s)
      in promised (rpcRequest (JObj [''method'' \<mapsto> JStr ''eth_requestAccounts'', ''params'' \<mapsto> JArr []])
                     (RpcPromiseCallback True) False s1))"

text \<open>The response object of \<^verbatim>\<open>_sendSync\<close>, lines 682-686.\<close>

definition syncResponse :: "jsval \<Rightarrow> jsval \<Rightarrow> jsval" where
  "syncResponse payload result =
     JObj [''id'' \<mapsto> field payload ''id'', ''jsonrpc'' \<mapsto> field payload ''jsonrpc'',
           ''result'' \<mapsto> result]"

text \<open>
  \<^verbatim>\<open>_sendSync(payload)\<close>, lines 656-687. For \<^verbatim>\<open>eth_uninstallFilter\<close> the payload has
  been through \<^verbatim>\<open>_rpcRequest\<close> when the response reads its \<^verbatim>\<open>jsonrpc\<close>.
\<close>

definition sendSync :: "messages \<Rightarrow> jsval \<Rightarrow> provider \<Rightarrow> (error + jsval) \<times> provider" where
  "sendSync msgs payload s =
     (if nullish payload then (Inl TypeError, s)
      else let method = field payload ''method''
           in if method = JStr ''eth_accounts''
              then (Inr (syncResponse payload
                           (if truthy (selectedAddress s) then JArr [selectedAddress s] else JArr [])), s)
              else if method = JStr ''eth_coinbase''
              then (Inr (syncResponse payload (js_or (selectedAddress s) Null)), s)
              else if method = JStr ''eth_uninstallFilter''
              then (case rpcRequest payload NOOP False s of
                      (Inl e, s1) \<Rightarrow> (Inl e, s1)
                    | (Inr payload1, s1) \<Rightarrow> (Inr (syncResponse payload1 (JBool True)), s1))
              else if method = JStr ''net_version''
              then (Inr (syncResponse payload (js_or (networkVersion s) Null)), s)
              else (Inl (Error (unsupportedSync msgs method)), s))"

text \<open>A function value used as a callback.\<close>

fun asCallback :: "jsval \<Rightarrow> callback" where
  "asCallback (JFun f m) = Consumer f"
| "asCallback v = NOOP"

definition returned :: "(error + jsval) \<times> provider \<Rightarrow> jsval \<Rightarrow> outcome \<times> provider" where
  "returned r v = (case fst r of Inl e \<Rightarrow> (Thrown e, snd r) | Inr p \<Rightarrow> (Returned v, snd r))"

text \<open>
  \<^verbatim>\<open>send(methodOrPayload, callbackOrArgs)\<close>, lines 622-650. The second branch returns
  what \<^verbatim>\<open>_rpcRequest\<close> returns, \<^verbatim>\<open>undefined\<close>; the last returns the response of
  \<^verbatim>\<open>_sendSync\<close>.
\<close>

definition send :: "messages \<Rightarrow> jsval \<Rightarrow> jsval \<Rightarrow> provider \<Rightarrow> outcome \<times> provider" where
  "send msgs methodOrPayload callbackOrArgs s =
     (let s1 = (if \<not> sentWarningsSend s
                then (perform (LogWarn SendDeprecation) s)\<lparr>sentWarningsSend := True\<rparr>
                else s)
      in if typeof methodOrPayload = TString \<and> (\<not> truthy callbackOrArgs \<or> isArray callbackOrArgs)
         then promised (rpcRequest (JObj [''method'' \<mapsto> methodOrPayload, ''params'' \<mapsto> callbackOrArgs])
                          (RpcPromiseCallback False) False s1)
         else if typeof methodOrPayload = TObject \<and> typeof callbackOrArgs = TFunction
         then returned (rpcRequest methodOrPayload (asCallback callbackOrArgs) False s1) Undefined
         else (case sendSync msgs methodOrPayload s1 of
                 (Inl e, s2) \<Rightarrow> (Thrown e, s2)
               | (Inr response, s2) \<Rightarrow> (Returned response, s2)))"

section \<open>Notifications and the initial state\<close>

text \<open>
  The listener for the notifications of the connection, lines 132-146.
  \<^verbatim>\<open>EMITTED_NOTIFICATIONS\<close> is a constant of \<^verbatim>\<open>./utils\<close> and a parameter here.
\<close>

definition handleNotification :: "jsval list \<Rightarrow> jsval \<Rightarrow> provider \<Rightarrow> (error + unit) \<times> provider" where
  "handleNotification emittedNotifications payload s =
     (if nullish payload then (Inl TypeError, s)
      else let method = field payload ''method''
           in if method = JStr ''wallet_accountsChanged''
              then (Inr (), handleAccountsChanged (field payload ''result'') False False s)
              else if method = JStr ''wallet_unlockStateChanged''
              then (Inr (), handleUnlockStateChanged (field payload ''result'') s)
              else if method = JStr ''wallet_chainChanged''
              then handleChainChanged (field payload ''result'') s
              else if method \<in> set emittedNotifications
              then (Inr (), emit ''message''
                              (JObj [''type'' \<mapsto> method, ''data'' \<mapsto> field payload ''params''])
                              (emit ''notification'' payload s))
              else (Inr (), s))"

text \<open>
  The continuation of the request for \<^verbatim>\<open>wallet_getProviderState\<close>, lines 150-170, on
  the state object that the backend answers. Destructuring \<^verbatim>\<open>null\<close> or
  \<^verbatim>\<open>undefined\<close> throws, which the \<^verbatim>\<open>catch\<close> logs; lines 158-163 do not throw.
\<close>

definition initialize :: "jsval \<Rightarrow> provider \<Rightarrow> provider" where
  "initialize state s =
     (if nullish state then perform (LogThrown FailedInitialState TypeError) s
      else let s1 = snd (handleChainChanged
                           (JObj [''chainId'' \<mapsto> field state ''chainId'',
                                  ''networkVersion'' \<mapsto> field state ''networkVersion'']) s);
               s2 = handleAccountsChanged (field state ''accounts'') False False s1;
               s3 = handleUnlockStateChanged (field state ''isUnlocked'') s2
           in emit ''connect'' (JObj [''chainId'' \<mapsto> chainId s3]) s3)"

section \<open>Observations\<close>

text \<open>The events among a list of effects, as pairs of name and payload, oldest first.\<close>

fun events :: "effect list \<Rightarrow> (string \<times> jsval) list" where
  "events [] = []"
| "events (Emit name payload # es) = (name, payload) # events es"
| "events (e # es) = events es"

text \<open>What \<^verbatim>\<open>log.error\<close> received, oldest first.\<close>

fun errorLogs :: "effect list \<Rightarrow> log_message list" where
  "errorLogs [] = []"
| "errorLogs (LogError msg d # es) = msg # errorLogs es"
| "errorLogs (LogThrown msg e # es) = msg # errorLogs es"
| "errorLogs (e # es) = errorLogs es"

text \<open>
  The shape of \<^verbatim>\<open>selectedAddress\<close> that the constructor sets up and every operation
  keeps: \<^verbatim>\<open>null\<close> or a truthy value, never \<^verbatim>\<open>undefined\<close>.
\<close>

definition selectedAddressOk :: "provider \<Rightarrow> bool" where
  "selectedAddressOk s = (selectedAddress s = Null \<or> truthy (selectedAddress s))"

text \<open>The value that \<^verbatim>\<open>_accounts[0] || null\<close> derives from the applied accounts.\<close>

definition derivedAddress :: "jsval list \<Rightarrow> jsval" where
  "derivedAddress xs = (case xs of [] \<Rightarrow> Null | a # _ \<Rightarrow> if truthy a then a else Null)"

section \<open>Basic facts about the operations\<close>


lemma perform_simps [simp]:
  "effects (perform e s) = effects s @ [e]"
  "isConnected (perform e s) = isConnected s"
  "accounts (perform e s) = accounts s"
  "isUnlocked (perform e s) = isUnlocked s"
  "sentWarningsEnable (perform e s) = sentWarningsEnable s"
  "sentWarningsSend (perform e s) = sentWarningsSend s"
  "selectedAddress (perform e s) = selectedAddress s"
  "networkVersion (perform e s) = networkVersion s"
  "chainId (perform e s) = chainId s"
  "web3DefaultAccount (perform e s) = web3DefaultAccount s"
  by (simp_all add: perform_def)

lemma emit_simps [simp]:
  "effects (emit name v s) = effects s @ [Emit name v]"
  "accounts (emit name v s) = accounts s"
  "isUnlocked (emit name v s) = isUnlocked s"
  "sentWarningsEnable (emit name v s) = sentWarningsEnable s"
  "sentWarningsSend (emit name v s) = sentWarningsSend s"
  "selectedAddress (emit name v s) = selectedAddress s"
  "networkVersion (emit name v s) = networkVersion s"
  "chainId (emit name v s) = chainId s"
  "web3DefaultAccount (emit name v s) = web3DefaultAccount s"
  "isConnected (emit name v s) = (if name = ''connect'' then Some True else isConnected s)"
  by (simp_all add: emit_def Let_def)

lemma events_append [simp]: "events (xs @ ys) = events xs @ events ys"
  by (induction xs rule: events.induct) simp_all

lemma errorLogs_append [simp]: "errorLogs (xs @ ys) = errorLogs xs @ errorLogs ys"
  by (induction xs rule: errorLogs.induct) simp_all

lemma hac_accounts: "accounts (handleAccountsChanged accs e i s) = JArr (appliedAccounts accs)"
  by (simp add: handleAccountsChanged_def Let_def dequal_def)

lemma hac_selected:
  "selectedAddress (handleAccountsChanged accs e i s) =
     (if selectedAddress s \<noteq> firstAccount (appliedAccounts accs)
      then js_or (firstAccount (appliedAccounts accs)) Null else selectedAddress s)"
  by (simp add: handleAccountsChanged_def Let_def dequal_def)

lemma hac_events:
  "events (effects (handleAccountsChanged accs e i s)) =
     events (effects s) @
       (if dequal (accounts s) (JArr (appliedAccounts accs)) then []
        else [(''accountsChanged'', JArr (appliedAccounts accs))])"
  by (simp add: handleAccountsChanged_def Let_def dequal_def)

lemma hac_derived:
  "selectedAddressOk s \<Longrightarrow>
   selectedAddress (handleAccountsChanged accs e i s) = derivedAddress (appliedAccounts accs)"
  by (auto simp: hac_selected selectedAddressOk_def derivedAddress_def firstAccount_def js_or_def
           split: list.splits)

lemma applyChainInfo_frame:
  "selectedAddress (applyChainInfo c n s) = selectedAddress s"
  "accounts (applyChainInfo c n s) = accounts s"
  "isUnlocked (applyChainInfo c n s) = isUnlocked s"
  "isConnected (applyChainInfo c n s) = isConnected s"
  by (simp_all add: applyChainInfo_def Let_def)

lemma applyChainInfo_valid:
  "\<not> invalidNetwork c n \<Longrightarrow>
   applyChainInfo c n s =
     (if c \<noteq> chainId s \<or> n \<noteq> networkVersion s
      then emit ''networkChanged'' n
             ((emit ''chainIdChanged'' c (emit ''chainChanged'' c (s\<lparr>chainId := c\<rparr>)))\<lparr>networkVersion := n\<rparr>)
      else s)"
  by (simp add: applyChainInfo_def Let_def)

lemma applyChainInfo_fields:
  "\<not> invalidNetwork c n \<Longrightarrow> chainId (applyChainInfo c n s) = c"
  "\<not> invalidNetwork c n \<Longrightarrow> networkVersion (applyChainInfo c n s) = n"
  by (auto simp: applyChainInfo_valid)

lemma applyChainInfo_effects:
  "\<not> invalidNetwork c n \<Longrightarrow>
   effects (applyChainInfo c n s) =
     effects s @ (if c \<noteq> chainId s \<or> n \<noteq> networkVersion s
                  then [Emit ''chainChanged'' c, Emit ''chainIdChanged'' c, Emit ''networkChanged'' n]
                  else [])"
  by (simp add: applyChainInfo_valid)

lemma applyChainInfo_idem:
  "\<not> invalidNetwork c n \<Longrightarrow> applyChainInfo c n (applyChainInfo c n s) = applyChainInfo c n s"
  using applyChainInfo_fields [of c n s] applyChainInfo_valid [of c n "applyChainInfo c n s"]
  by simp

lemma applyChainInfo_invalid:
  "invalidNetwork c n \<Longrightarrow>
   applyChainInfo c n s =
     perform (LogError InvalidNetworkParameters
                [JObj [''chainId'' \<mapsto> c, ''networkVersion'' \<mapsto> n]]) s"
  by (simp add: applyChainInfo_def)

lemma networkInfo_defined:
  "arg \<noteq> Null \<Longrightarrow>
   networkInfo arg = Inr (field (if arg = Undefined then JObj Map.empty else arg) ''chainId'',
                          field (if arg = Undefined then JObj Map.empty else arg) ''networkVersion'')"
  by (simp add: networkInfo_def Let_def nullish_def)

lemma networkInfo_pair:
  "networkInfo (JObj [''chainId'' \<mapsto> c, ''networkVersion'' \<mapsto> n]) = Inr (c, n)"
  by (simp add: networkInfo_def Let_def nullish_def ownProp_def)

lemma networkInfo_Null: "networkInfo Null = Inl TypeError"
  by (simp add: networkInfo_def Let_def nullish_def)

lemma handleChainChanged_frame:
  "selectedAddress (snd (handleChainChanged arg s)) = selectedAddress s"
  "accounts (snd (handleChainChanged arg s)) = accounts s"
  "isUnlocked (snd (handleChainChanged arg s)) = isUnlocked s"
  "isConnected (snd (handleChainChanged arg s)) = isConnected s"
  by (simp_all add: handleChainChanged_def applyChainInfo_frame split: sum.splits prod.splits)

lemma rpcRequest_state:
  "snd (rpcRequest payload cb i s) = s \<or>
   (\<exists>p c. snd (rpcRequest payload cb i s) = perform (Handle p c) s)"
  by (cases payload) (auto simp: Let_def)

lemma rpcRequest_frame:
  "selectedAddress (snd (rpcRequest payload cb i s)) = selectedAddress s"
  "accounts (snd (rpcRequest payload cb i s)) = accounts s"
  "isUnlocked (snd (rpcRequest payload cb i s)) = isUnlocked s"
  "isConnected (snd (rpcRequest payload cb i s)) = isConnected s"
  "chainId (snd (rpcRequest payload cb i s)) = chainId s"
  "networkVersion (snd (rpcRequest payload cb i s)) = networkVersion s"
  "events (effects (snd (rpcRequest payload cb i s))) = events (effects s)"
  using rpcRequest_state [of payload cb i s] by auto

lemma rpcRequest_error_state:
  "fst (rpcRequest payload cb i s) = Inl e \<Longrightarrow> snd (rpcRequest payload cb i s) = s"
  by (cases payload) (simp_all add: Let_def)

lemma promised_snd [simp]: "snd (promised r) = snd r"
  by (simp add: promised_def split: sum.splits)

lemma returned_snd [simp]: "snd (returned r v) = snd r"
  by (simp add: returned_def split: sum.splits)

lemma request_frame:
  "selectedAddress (snd (request args s)) = selectedAddress s"
  "accounts (snd (request args s)) = accounts s"
  "isUnlocked (snd (request args s)) = isUnlocked s"
  "isConnected (snd (request args s)) = isConnected s"
  "chainId (snd (request args s)) = chainId s"
  "networkVersion (snd (request args s)) = networkVersion s"
  by (simp_all add: request_def Let_def rpcRequest_frame del: rpcRequest.simps)

lemma sendAsync_frame:
  "selectedAddress (snd (sendAsync payload cb s)) = selectedAddress s"
  by (simp add: sendAsync_def rpcRequest_frame)

lemma enable_frame:
  "selectedAddress (snd (enable s)) = selectedAddress s"
  by (simp add: enable_def Let_def rpcRequest_frame del: rpcRequest.simps)

lemma sendSync_frame:
  "selectedAddress (snd (sendSync msgs payload s)) = selectedAddress s"
proof -
  have "selectedAddress (snd (case rpcRequest payload NOOP False s of
                      (Inl e, s1) \<Rightarrow> (Inl e, s1)
                    | (Inr payload1, s1) \<Rightarrow> (Inr (syncResponse payload1 (JBool True)), s1))) = selectedAddress s"
    using rpcRequest_frame(1) [of payload NOOP False s]
    by (cases "rpcRequest payload NOOP False s") (auto split: sum.splits)
  then show ?thesis by (simp add: sendSync_def Let_def)
qed

lemma send_frame:
  "selectedAddress (snd (send msgs mp ca s)) = selectedAddress s"
proof -
  have "\<And>t. selectedAddress (snd (case sendSync msgs mp t of
                 (Inl e, s2) \<Rightarrow> (Thrown e, s2)
               | (Inr response, s2) \<Rightarrow> (Returned response, s2))) = selectedAddress t"
    subgoal for t
      using sendSync_frame [of msgs mp t]
      by (cases "sendSync msgs mp t") (auto split: sum.splits)
    done
  then show ?thesis
    by (simp add: send_def Let_def rpcRequest_frame del: rpcRequest.simps)
qed

lemma handleDisconnect_frame:
  "selectedAddress (handleDisconnect msgs n e s) = selectedAddress s"
  by (simp add: handleDisconnect_def Let_def)

lemma handleUnlockStateChanged_lock:
  "isUnlocked s \<Longrightarrow>
   handleUnlockStateChanged (JBool False) s =
     handleAccountsChanged (JArr []) False False (s\<lparr>isUnlocked := False\<rparr>)"
  by (simp add: handleUnlockStateChanged_def)

lemma handleUnlockStateChanged_other:
  "\<not> (v = JBool False \<and> isUnlocked s) \<Longrightarrow>
      selectedAddress (handleUnlockStateChanged v s) = selectedAddress s"
  by (cases v) (auto simp: handleUnlockStateChanged_def Let_def rpcRequest_frame simp del: rpcRequest.simps)


lemma dequal_arrays:
  "dequal (JArr A) (JArr B) \<longleftrightarrow>
     length A = length B \<and> (\<forall>k < length A. dequal (A ! k) (B ! k))"
  by (simp add: dequal_def list_eq_iff_nth_eq)

lemma two_accounts:
  "handleAccountsChanged (JArr [JStr ''0xa'', JStr ''0xb'']) False False (initial_state None) =
     \<lparr> isConnected = None, accounts = JArr [JStr ''0xa'', JStr ''0xb''], isUnlocked = False,
       sentWarningsEnable = False, sentWarningsSend = False,
       selectedAddress = JStr ''0xa'', networkVersion = Null, chainId = Null,
       web3DefaultAccount = None,
       effects = [Emit ''accountsChanged'' (JArr [JStr ''0xa'', JStr ''0xb''])] \<rparr>"
  by (simp add: handleAccountsChanged_def initial_state_def Let_def dequal_def appliedAccounts_def
        firstAccount_def js_or_def emit_def perform_def)

lemma unlocked_one_account:
  "handleAccountsChanged (JArr [JStr ''0xa'']) False False
     (handleUnlockStateChanged (JBool True) (initial_state None)) =
     \<lparr> isConnected = None, accounts = JArr [JStr ''0xa''], isUnlocked = True,
       sentWarningsEnable = False, sentWarningsSend = False,
       selectedAddress = JStr ''0xa'', networkVersion = Null, chainId = Null,
       web3DefaultAccount = None,
       effects = [Handle (JObj [''method'' \<mapsto> JStr ''eth_accounts'', ''params'' \<mapsto> JArr [],
                                ''jsonrpc'' \<mapsto> JStr ''2.0''])
                    (AccountsCallback
                       (JObj [''method'' \<mapsto> JStr ''eth_accounts'', ''params'' \<mapsto> JArr [],
                              ''jsonrpc'' \<mapsto> JStr ''2.0'']) True NOOP),
                  Emit ''accountsChanged'' (JArr [JStr ''0xa''])] \<rparr>"
  by (simp add: handleAccountsChanged_def handleUnlockStateChanged_def initial_state_def Let_def
        dequal_def appliedAccounts_def firstAccount_def js_or_def emit_def perform_def
        defaultJsonrpc_def accountsIntercept_def ownProp_def)

lemma selectedAddressOk_initial: "selectedAddressOk (initial_state w)"
  by (simp add: selectedAddressOk_def initial_state_def)

lemma selectedAddressOk_same:
  "selectedAddress t = selectedAddress s \<Longrightarrow> selectedAddressOk t = selectedAddressOk s"
  by (simp add: selectedAddressOk_def)

lemma derivedAddress_ok: "derivedAddress xs = Null \<or> truthy (derivedAddress xs)"
  by (simp add: derivedAddress_def split: list.splits)

lemma selectedAddressOk_accounts:
  "selectedAddressOk s \<Longrightarrow> selectedAddressOk (handleAccountsChanged accs e i s)"
  using derivedAddress_ok [of "appliedAccounts accs"]
  by (simp add: hac_derived selectedAddressOk_def)

lemma selectedAddressOk_unlock:
  "selectedAddressOk s \<Longrightarrow> selectedAddressOk (handleUnlockStateChanged v s)"
proof (cases "v = JBool False \<and> isUnlocked s")
  case True
  assume ok: "selectedAddressOk s"
  have "selectedAddressOk (s\<lparr>isUnlocked := False\<rparr>)"
    using ok by (simp add: selectedAddressOk_def)
  then show ?thesis
    using True by (simp add: handleUnlockStateChanged_lock selectedAddressOk_accounts)
next
  case False
  assume ok: "selectedAddressOk s"
  show ?thesis
    using ok selectedAddressOk_same [OF handleUnlockStateChanged_other [OF False]] by simp
qed

lemma selectedAddressOk_invoke:
  "selectedAddressOk s \<Longrightarrow> selectedAddressOk (snd (invoke cb err res s))"
proof (induction cb arbitrary: s)
  case (AccountsCallback payload isInternal callback)
  then show ?case by (simp add: selectedAddressOk_accounts)
qed (simp_all add: selectedAddressOk_def)

lemma selectedAddressOk_notification:
  "selectedAddressOk s \<Longrightarrow> selectedAddressOk (snd (handleNotification ns payload s))"
  by (simp add: handleNotification_def Let_def selectedAddressOk_accounts selectedAddressOk_unlock
        selectedAddressOk_same [OF handleChainChanged_frame(1)])
     (simp add: selectedAddressOk_def)

lemma selectedAddressOk_initialize:
  "selectedAddressOk s \<Longrightarrow> selectedAddressOk (initialize state s)"
proof -
  assume ok: "selectedAddressOk s"
  have e: "\<And>t n v. selectedAddressOk (emit n v t) = selectedAddressOk t"
    by (simp add: selectedAddressOk_def)
  have p: "\<And>t x. selectedAddressOk (perform x t) = selectedAddressOk t"
    by (simp add: selectedAddressOk_def)
  show ?thesis
    using ok
    by (simp add: initialize_def Let_def e p selectedAddressOk_accounts selectedAddressOk_unlock
          selectedAddressOk_same [OF handleChainChanged_frame(1)])
qed

lemma initial_state_fields [simp]:
  "isConnected (initial_state w) = None"
  "accounts (initial_state w) = Null"
  "isUnlocked (initial_state w) = False"
  "selectedAddress (initial_state w) = Null"
  "networkVersion (initial_state w) = Null"
  "chainId (initial_state w) = Null"
  "web3DefaultAccount (initial_state w) = w"
  "effects (initial_state w) = []"
  by (simp_all add: initial_state_def)

lemma valid_network_iff:
  "\<not> invalidNetwork c n \<longleftrightarrow> (\<exists>cs ns. c = JStr cs \<and> n = JStr ns \<and> take 2 cs = ''0x'')"
  by (cases c; cases n) (simp_all add: invalidNetwork_def numeral_2_eq_2)

lemma invalidNetwork_cases:
  "invalidNetwork c n \<longleftrightarrow>
     typeof c \<noteq> TString \<or> c = JStr [] \<or> \<not> startsWith c ''0x'' \<or> typeof n \<noteq> TString"
  by (cases c) (auto simp: invalidNetwork_def)

lemma handleChainChanged_pair:
  "networkInfo arg = Inr (c, n) \<Longrightarrow> handleChainChanged arg s = (Inr (), applyChainInfo c n s)"
  by (simp add: handleChainChanged_def)

lemma handleChainChanged_Null: "handleChainChanged Null s = (Inl TypeError, s)"
  by (simp add: handleChainChanged_def networkInfo_Null)

lemma one_chain:
  "snd (handleChainChanged (JObj [''chainId'' \<mapsto> JStr ''0x1'', ''networkVersion'' \<mapsto> JStr ''1''])
          (initial_state None)) =
     \<lparr> isConnected = None, accounts = Null, isUnlocked = False,
       sentWarningsEnable = False, sentWarningsSend = False,
       selectedAddress = Null, networkVersion = JStr ''1'', chainId = JStr ''0x1'',
       web3DefaultAccount = None,
       effects = [Emit ''chainChanged'' (JStr ''0x1''), Emit ''chainIdChanged'' (JStr ''0x1''),
                  Emit ''networkChanged'' (JStr ''1'')] \<rparr>"
  by (simp add: handleChainChanged_pair [OF networkInfo_pair] applyChainInfo_def invalidNetwork_def
        initial_state_def Let_def emit_def perform_def)

lemma net_version_payload: "field payload ''method'' = JStr ''net_version'' \<Longrightarrow> \<not> nullish payload"
  by (auto simp: nullish_def)

lemma request_rejects_invalid:
  assumes "args \<noteq> Null"
    and "isArray args \<or> typeof args \<noteq> TObject \<or>
         typeof (field args ''method'') \<noteq> TString \<or> field args ''method'' = JStr []"
  shows "\<exists>msg. request args s = (Rejected (InvalidRequest msg args), s)"
proof (cases "typeof args \<noteq> TObject \<or> isArray args")
  case True
  then show ?thesis by (simp add: request_def)
next
  case False
  then have n: "\<not> nullish args"
    using assms(1) by (cases args) (simp_all add: nullish_def)
  have "typeof (field args ''method'') \<noteq> TString \<or> \<not> truthy (field args ''method'')"
    using assms(2) False by auto
  then show ?thesis
    using False n by (auto simp: request_def Let_def)
qed

lemma defaultJsonrpc_other: "k \<noteq> ''jsonrpc'' \<Longrightarrow> defaultJsonrpc m k = m k"
  by (simp add: defaultJsonrpc_def)

lemma defaultJsonrpc_method [simp]:
  "ownProp (defaultJsonrpc m) ''method'' = ownProp m ''method''"
  by (simp add: ownProp_def defaultJsonrpc_other)

lemma defaultJsonrpc_jsonrpc:
  "ownProp (defaultJsonrpc m) ''jsonrpc'' =
     (if truthy (ownProp m ''jsonrpc'') then ownProp m ''jsonrpc'' else JStr ''2.0'')"
  by (simp add: defaultJsonrpc_def ownProp_def)

lemma appliedAccounts_or_empty:
  "appliedAccounts (js_or r (JArr [])) = appliedAccounts r"
  by (cases r) (simp_all add: js_or_def appliedAccounts_def)

lemma selectedAddressOk_defined: "selectedAddressOk s \<Longrightarrow> selectedAddress s \<noteq> Undefined"
  by (auto simp: selectedAddressOk_def)

lemma selectedAddressOk_frame:
  "selectedAddressOk (snd (handleChainChanged arg s)) = selectedAddressOk s"
  "selectedAddressOk (handleDisconnect msgs streamName err s) = selectedAddressOk s"
  "selectedAddressOk (snd (rpcRequest payload cb i s)) = selectedAddressOk s"
  "selectedAddressOk (snd (request args s)) = selectedAddressOk s"
  "selectedAddressOk (snd (sendAsync payload cb s)) = selectedAddressOk s"
  "selectedAddressOk (snd (enable s)) = selectedAddressOk s"
  "selectedAddressOk (snd (send msgs methodOrPayload callbackOrArgs s)) = selectedAddressOk s"
  "selectedAddressOk (snd (sendSync msgs payload s)) = selectedAddressOk s"
  by (simp_all only: selectedAddressOk_def handleChainChanged_frame handleDisconnect_frame
        rpcRequest_frame request_frame sendAsync_frame enable_frame send_frame sendSync_frame)

text \<open>
  Every argument of \<^verbatim>\<open>_handleChainChanged\<close> that the parameter destructuring accepts,
  which is every value but \<^verbatim>\<open>null\<close>, and whose pair fails the test of lines 427-430 is
  logged and discarded: one error log, no field changed, no event, a normal return.
\<close>

lemma invalid_network_discarded:
  assumes "networkInfo arg = Inr (c, n)"
    and "typeof c \<noteq> TString \<or> c = JStr [] \<or> \<not> startsWith c ''0x'' \<or> typeof n \<noteq> TString"
  shows "handleChainChanged arg s =
           (Inr (), perform (LogError InvalidNetworkParameters
                               [JObj [''chainId'' \<mapsto> c, ''networkVersion'' \<mapsto> n]]) s) \<and>
         chainId (snd (handleChainChanged arg s)) = chainId s \<and>
         networkVersion (snd (handleChainChanged arg s)) = networkVersion s \<and>
         events (effects (snd (handleChainChanged arg s))) = events (effects s) \<and>
         errorLogs (effects (snd (handleChainChanged arg s))) =
           errorLogs (effects s) @ [InvalidNetworkParameters]"
proof -
  have "invalidNetwork c n"
    using assms(2) by (simp add: invalidNetwork_cases)
  then show ?thesis
    by (simp add: handleChainChanged_pair [OF assms(1)] applyChainInfo_invalid)
qed

lemma invalid_network_discarded_example:
  "\<not> startsWith (JStr ''1'') ''0x'' \<and>
   snd (handleChainChanged (JObj [''chainId'' \<mapsto> JStr ''1'', ''networkVersion'' \<mapsto> JStr ''1''])
          (initial_state None)) =
     (initial_state None)
       \<lparr>effects := [LogError InvalidNetworkParameters
                      [JObj [''chainId'' \<mapsto> JStr ''1'', ''networkVersion'' \<mapsto> JStr ''1'']]]\<rparr> \<and>
   fst (handleChainChanged (JObj [''chainId'' \<mapsto> JStr ''1'', ''networkVersion'' \<mapsto> JStr ''1''])
          (initial_state None)) = Inr ()"
proof -
  have p: "typeof (JStr ''1'') \<noteq> TString \<or> JStr ''1'' = JStr [] \<or>
           \<not> startsWith (JStr ''1'') ''0x'' \<or> typeof (JStr ''1'') \<noteq> TString"
    by simp
  have q: "\<not> startsWith (JStr ''1'') ''0x''" by simp
  note t = invalid_network_discarded [OF networkInfo_pair p, where s = "initial_state None"]
  show ?thesis
    using t q by (simp add: perform_def)
qed

section \<open>The claims\<close>

text \<open>
  C8. For every signal of a transport failure, \<^verbatim>\<open>_handleDisconnect\<close> sets
  \<^verbatim>\<open>isConnected\<close> to \<^verbatim>\<open>false\<close>, and it emits \<^verbatim>\<open>disconnect\<close> and then \<^verbatim>\<open>close\<close>,
  each with the object of code 1011 and the reason text, exactly when \<^verbatim>\<open>isConnected\<close>
  was \<^verbatim>\<open>true\<close> at the call. A provider that never connected (\<^verbatim>\<open>null\<close>) or is
  already disconnected emits neither, so a second failure right after the first adds
  no event.
\<close>

theorem handleDisconnect_signals_once:
  "isConnected (handleDisconnect msgs streamName err s) = Some False \<and>
   events (effects (handleDisconnect msgs streamName err s)) =
     events (effects s) @
       (if isConnected s = Some True
        then [(''disconnect'', disconnectError msgs), (''close'', disconnectError msgs)]
        else []) \<and>
   field (disconnectError msgs) ''code'' = JNum 1011 \<and>
   field (disconnectError msgs) ''reason'' = JStr (disconnected msgs) \<and>
   events (effects (handleDisconnect msgs streamName' err' (handleDisconnect msgs streamName err s))) =
     events (effects (handleDisconnect msgs streamName err s))"
  by (simp add: handleDisconnect_def Let_def disconnectError_def ownProp_def)

theorem handleDisconnect_signals_once_witness:
  "isConnected (handleDisconnect \<lparr>disconnected = ''lost'', unsupportedSync = (\<lambda>m. ''unsupported'')\<rparr>
                  (JStr ''MetaMask'') Undefined
                  (emit ''connect'' (JObj [''chainId'' \<mapsto> Null]) (initial_state None))) = Some False \<and>
   events (effects (handleDisconnect \<lparr>disconnected = ''lost'', unsupportedSync = (\<lambda>m. ''unsupported'')\<rparr>
                  (JStr ''MetaMask'') Undefined
                  (emit ''connect'' (JObj [''chainId'' \<mapsto> Null]) (initial_state None)))) =
     [(''connect'', JObj [''chainId'' \<mapsto> Null]),
      (''disconnect'', JObj [''code'' \<mapsto> JNum 1011, ''reason'' \<mapsto> JStr ''lost'']),
      (''close'', JObj [''code'' \<mapsto> JNum 1011, ''reason'' \<mapsto> JStr ''lost''])] \<and>
   events (effects (handleDisconnect \<lparr>disconnected = ''lost'', unsupportedSync = (\<lambda>m. ''unsupported'')\<rparr>
                  (JStr ''MetaMask'') Undefined (initial_state None))) = []"
  using handleDisconnect_signals_once
          [of "\<lparr>disconnected = ''lost'', unsupportedSync = (\<lambda>m. ''unsupported'')\<rparr>"
              "JStr ''MetaMask''" Undefined
              "emit ''connect'' (JObj [''chainId'' \<mapsto> Null]) (initial_state None)"]
        handleDisconnect_signals_once
          [of "\<lparr>disconnected = ''lost'', unsupportedSync = (\<lambda>m. ''unsupported'')\<rparr>"
              "JStr ''MetaMask''" Undefined "initial_state None"]
  by (simp add: initial_state_def disconnectError_def)

text \<open>
  C6. Applying accounts through \<^verbatim>\<open>_handleAccountsChanged\<close> emits
  \<^verbatim>\<open>accountsChanged\<close>, once and with the applied sequence, exactly when the applied
  sequence is not deep-equal to the stored accounts; when it is deep-equal, no event is
  emitted and the stored accounts stay as they are. Two sequences are deep-equal when
  they have the same length and deep-equal elements at every position.
\<close>

theorem accountsChanged_iff_not_dequal:
  "events (effects (handleAccountsChanged accs isEthAccounts isInternal s)) =
     events (effects s) @
       (if dequal (accounts s) (JArr (appliedAccounts accs)) then []
        else [(''accountsChanged'', JArr (appliedAccounts accs))]) \<and>
   (dequal (accounts s) (JArr (appliedAccounts accs)) \<longrightarrow>
      accounts (handleAccountsChanged accs isEthAccounts isInternal s) = accounts s) \<and>
   (\<not> dequal (accounts s) (JArr (appliedAccounts accs)) \<longrightarrow>
      accounts (handleAccountsChanged accs isEthAccounts isInternal s) = JArr (appliedAccounts accs)) \<and>
   (dequal (JArr A) (JArr B) \<longleftrightarrow>
      length A = length B \<and> (\<forall>k < length A. dequal (A ! k) (B ! k)))"
  using dequal_arrays [of A B]
  by (simp add: hac_events hac_accounts dequal_def)

theorem accountsChanged_iff_not_dequal_witness:
  "events (effects (handleAccountsChanged (JArr [JStr ''0xa'', JStr ''0xb'']) False False
      (handleAccountsChanged (JArr [JStr ''0xa'', JStr ''0xb'']) False False (initial_state None)))) =
     [(''accountsChanged'', JArr [JStr ''0xa'', JStr ''0xb''])] \<and>
   events (effects (handleAccountsChanged (JArr [JStr ''0xb'', JStr ''0xa'']) False False
      (handleAccountsChanged (JArr [JStr ''0xa'', JStr ''0xb'']) False False (initial_state None)))) =
     [(''accountsChanged'', JArr [JStr ''0xa'', JStr ''0xb'']),
      (''accountsChanged'', JArr [JStr ''0xb'', JStr ''0xa''])]"
  using accountsChanged_iff_not_dequal
          [of "JArr [JStr ''0xa'', JStr ''0xb'']" False False
              "handleAccountsChanged (JArr [JStr ''0xa'', JStr ''0xb'']) False False (initial_state None)"
              "[]" "[]"]
        accountsChanged_iff_not_dequal
          [of "JArr [JStr ''0xb'', JStr ''0xa'']" False False
              "handleAccountsChanged (JArr [JStr ''0xa'', JStr ''0xb'']) False False (initial_state None)"
              "[]" "[]"]
  by (simp add: two_accounts dequal_def appliedAccounts_def)


text \<open>
  C5. In a state where \<^verbatim>\<open>isUnlocked\<close> is \<^verbatim>\<open>true\<close> (and \<^verbatim>\<open>selectedAddress\<close> is
  not \<^verbatim>\<open>undefined\<close>, which no operation makes it), \<^verbatim>\<open>_handleUnlockStateChanged(false)\<close>
  is the accounts update with the empty sequence on the state with \<^verbatim>\<open>isUnlocked\<close>
  cleared: the stored accounts become \<^verbatim>\<open>[]\<close>, \<^verbatim>\<open>selectedAddress\<close> becomes
  \<^verbatim>\<open>null\<close>, and \<^verbatim>\<open>accountsChanged\<close> is emitted with \<^verbatim>\<open>[]\<close> unless the stored
  accounts were already deep-equal to \<^verbatim>\<open>[]\<close>.
\<close>

theorem lock_clears_accounts:
  assumes "isUnlocked s" and "selectedAddress s \<noteq> Undefined"
  shows "handleUnlockStateChanged (JBool False) s =
           handleAccountsChanged (JArr []) False False (s\<lparr>isUnlocked := False\<rparr>) \<and>
         accounts (handleUnlockStateChanged (JBool False) s) = JArr [] \<and>
         selectedAddress (handleUnlockStateChanged (JBool False) s) = Null \<and>
         \<not> isUnlocked (handleUnlockStateChanged (JBool False) s) \<and>
         events (effects (handleUnlockStateChanged (JBool False) s)) =
           events (effects s) @
             (if dequal (accounts s) (JArr []) then [] else [(''accountsChanged'', JArr [])])"
  using assms
  by (simp add: handleUnlockStateChanged_lock hac_accounts hac_selected hac_events
        appliedAccounts_def firstAccount_def js_or_def)
     (simp add: handleAccountsChanged_def Let_def)


theorem lock_clears_accounts_witness:
  "isUnlocked (handleAccountsChanged (JArr [JStr ''0xa'']) False False
                 (handleUnlockStateChanged (JBool True) (initial_state None))) \<and>
   accounts (handleUnlockStateChanged (JBool False)
               (handleAccountsChanged (JArr [JStr ''0xa'']) False False
                  (handleUnlockStateChanged (JBool True) (initial_state None)))) = JArr [] \<and>
   selectedAddress (handleUnlockStateChanged (JBool False)
               (handleAccountsChanged (JArr [JStr ''0xa'']) False False
                  (handleUnlockStateChanged (JBool True) (initial_state None)))) = Null \<and>
   events (effects (handleUnlockStateChanged (JBool False)
               (handleAccountsChanged (JArr [JStr ''0xa'']) False False
                  (handleUnlockStateChanged (JBool True) (initial_state None))))) =
     [(''accountsChanged'', JArr [JStr ''0xa'']), (''accountsChanged'', JArr [])]"
proof -
  let ?s = "handleAccountsChanged (JArr [JStr ''0xa'']) False False
              (handleUnlockStateChanged (JBool True) (initial_state None))"
  have u: "isUnlocked ?s" by (simp add: unlocked_one_account)
  have a: "selectedAddress ?s \<noteq> Undefined" by (simp add: unlocked_one_account)
  note t = lock_clears_accounts [OF u a]
  have "accounts (handleUnlockStateChanged (JBool False) ?s) = JArr []"
    and "selectedAddress (handleUnlockStateChanged (JBool False) ?s) = Null"
    and "events (effects (handleUnlockStateChanged (JBool False) ?s)) =
           events (effects ?s) @
             (if dequal (accounts ?s) (JArr []) then [] else [(''accountsChanged'', JArr [])])"
    using t by blast+
  then show ?thesis
    using u by (simp add: unlocked_one_account dequal_def)
qed

text \<open>
  C1 (as amended). In a state whose \<^verbatim>\<open>selectedAddress\<close> is \<^verbatim>\<open>null\<close> or truthy, as
  the constructor leaves it and every operation keeps it, an accounts update through
  \<^verbatim>\<open>_handleAccountsChanged\<close> leaves \<^verbatim>\<open>selectedAddress\<close> equal to the first element
  of the applied sequence when that element is truthy, and \<^verbatim>\<open>null\<close> when the sequence
  is empty or its first element is falsy. No other operation assigns the field: the
  chain handler, the disconnect handler, \<^verbatim>\<open>_rpcRequest\<close>, \<^verbatim>\<open>request\<close>, \<^verbatim>\<open>sendAsync\<close>,
  \<^verbatim>\<open>enable\<close>, \<^verbatim>\<open>send\<close> and \<^verbatim>\<open>_sendSync\<close> leave it as it is, and the unlock handler
  changes it only by running the accounts update with \<^verbatim>\<open>[]\<close>.
\<close>

theorem selectedAddress_from_accounts:
  assumes "selectedAddressOk s"
  shows "selectedAddress (handleAccountsChanged accs isEthAccounts isInternal s) =
           (case appliedAccounts accs of
              [] \<Rightarrow> Null
            | a # rest \<Rightarrow> if truthy a then a else Null) \<and>
         selectedAddressOk (handleAccountsChanged accs isEthAccounts isInternal s) \<and>
         selectedAddress (snd (handleChainChanged arg s)) = selectedAddress s \<and>
         selectedAddress (handleDisconnect msgs streamName err s) = selectedAddress s \<and>
         selectedAddress (snd (rpcRequest payload cb isInternal s)) = selectedAddress s \<and>
         selectedAddress (snd (request args s)) = selectedAddress s \<and>
         selectedAddress (snd (sendAsync payload cb s)) = selectedAddress s \<and>
         selectedAddress (snd (enable s)) = selectedAddress s \<and>
         selectedAddress (snd (send msgs methodOrPayload callbackOrArgs s)) = selectedAddress s \<and>
         selectedAddress (snd (sendSync msgs payload s)) = selectedAddress s \<and>
         (if v = JBool False \<and> isUnlocked s
          then handleUnlockStateChanged v s =
                 handleAccountsChanged (JArr []) False False (s\<lparr>isUnlocked := False\<rparr>)
          else selectedAddress (handleUnlockStateChanged v s) = selectedAddress s)"
proof -
  have "selectedAddress (handleAccountsChanged accs isEthAccounts isInternal s) =
          derivedAddress (appliedAccounts accs)"
    using assms by (rule hac_derived)
  moreover have "selectedAddressOk (handleAccountsChanged accs isEthAccounts isInternal s)"
    using assms by (rule selectedAddressOk_accounts)
  moreover have "if v = JBool False \<and> isUnlocked s
          then handleUnlockStateChanged v s =
                 handleAccountsChanged (JArr []) False False (s\<lparr>isUnlocked := False\<rparr>)
          else selectedAddress (handleUnlockStateChanged v s) = selectedAddress s"
    using handleUnlockStateChanged_other [of v s] handleUnlockStateChanged_lock [of s]
    by auto
  ultimately show ?thesis
    by (simp only: derivedAddress_def handleChainChanged_frame handleDisconnect_frame
          rpcRequest_frame request_frame sendAsync_frame enable_frame send_frame sendSync_frame
          simp_thms)
qed

theorem selectedAddress_from_accounts_witness:
  "selectedAddressOk (initial_state None) \<and>
   selectedAddress (handleAccountsChanged (JArr [JStr ''0xa'', JStr ''0xb'']) False False
                      (initial_state None)) = JStr ''0xa'' \<and>
   selectedAddress (handleAccountsChanged (JArr []) False False (initial_state None)) = Null"
  using selectedAddress_from_accounts
          [where s = "initial_state None" and accs = "JArr [JStr ''0xa'', JStr ''0xb'']"
             and isEthAccounts = False and isInternal = False]
        selectedAddress_from_accounts
          [where s = "initial_state None" and accs = "JArr []"
             and isEthAccounts = False and isInternal = False]
        selectedAddressOk_initial [of None]
  by (simp add: appliedAccounts_def)

text \<open>
  C1 as stated fails on a falsy first element: after the accepted update \<^verbatim>\<open>['']\<close> the
  field is \<^verbatim>\<open>null\<close>, not the first element \<^verbatim>\<open>''\<close>, by \<^verbatim>\<open>_accounts[0] || null\<close>.
\<close>

theorem selectedAddress_from_accounts_counterexample:
  "appliedAccounts (JArr [JStr '''']) = [JStr ''''] \<and>
   selectedAddress (handleAccountsChanged (JArr [JStr '''']) False False (initial_state None)) = Null \<and>
   selectedAddress (handleAccountsChanged (JArr [JStr '''']) False False (initial_state None)) \<noteq>
     hd (appliedAccounts (JArr [JStr '''']))"
  by (simp add: hac_selected appliedAccounts_def firstAccount_def initial_state_def js_or_def)

text \<open>
  C2 (as amended). For every valid pair, a chain id string that starts with \<^verbatim>\<open>0x\<close> and a
  network version string, \<^verbatim>\<open>_handleChainChanged\<close> returns normally and emits
  \<^verbatim>\<open>chainChanged\<close>, \<^verbatim>\<open>chainIdChanged\<close> and \<^verbatim>\<open>networkChanged\<close>, once each and in
  that order, when the pair differs from the stored fields, as every valid pair does in
  the initial state; it emits nothing when the pair is already stored. A second call
  with the same pair right after the first changes nothing and emits nothing, and both
  fields equal the pair after either call.
\<close>

theorem chainChanged_twice:
  assumes "networkInfo arg = Inr (JStr c, JStr n)" and "startsWith (JStr c) ''0x''"
  shows "fst (handleChainChanged arg s) = Inr () \<and>
         effects (snd (handleChainChanged arg s)) =
           effects s @
             (if JStr c \<noteq> chainId s \<or> JStr n \<noteq> networkVersion s
              then [Emit ''chainChanged'' (JStr c), Emit ''chainIdChanged'' (JStr c),
                    Emit ''networkChanged'' (JStr n)]
              else []) \<and>
         effects (snd (handleChainChanged arg (initial_state w))) =
           [Emit ''chainChanged'' (JStr c), Emit ''chainIdChanged'' (JStr c),
            Emit ''networkChanged'' (JStr n)] \<and>
         handleChainChanged arg (snd (handleChainChanged arg s)) =
           (Inr (), snd (handleChainChanged arg s)) \<and>
         chainId (snd (handleChainChanged arg s)) = JStr c \<and>
         networkVersion (snd (handleChainChanged arg s)) = JStr n"
proof -
  have v: "\<not> invalidNetwork (JStr c) (JStr n)"
    using assms(2) by (simp add: invalidNetwork_def)
  have h: "\<And>t. handleChainChanged arg t = (Inr (), applyChainInfo (JStr c) (JStr n) t)"
    using assms(1) by (rule handleChainChanged_pair)
  show ?thesis
    by (simp add: h applyChainInfo_effects [OF v] applyChainInfo_idem [OF v]
          applyChainInfo_fields [OF v])
qed

theorem chainChanged_twice_witness:
  "startsWith (JStr ''0x1'') ''0x'' \<and>
   effects (snd (handleChainChanged
                   (JObj [''chainId'' \<mapsto> JStr ''0x1'', ''networkVersion'' \<mapsto> JStr ''1''])
                   (snd (handleChainChanged
                           (JObj [''chainId'' \<mapsto> JStr ''0x1'', ''networkVersion'' \<mapsto> JStr ''1''])
                           (initial_state None))))) =
     [Emit ''chainChanged'' (JStr ''0x1''), Emit ''chainIdChanged'' (JStr ''0x1''),
      Emit ''networkChanged'' (JStr ''1'')] \<and>
   chainId (snd (handleChainChanged
                   (JObj [''chainId'' \<mapsto> JStr ''0x1'', ''networkVersion'' \<mapsto> JStr ''1''])
                   (initial_state None))) = JStr ''0x1'' \<and>
   networkVersion (snd (handleChainChanged
                   (JObj [''chainId'' \<mapsto> JStr ''0x1'', ''networkVersion'' \<mapsto> JStr ''1''])
                   (initial_state None))) = JStr ''1''"
proof -
  have p: "startsWith (JStr ''0x1'') ''0x''" by simp
  note t = chainChanged_twice [OF networkInfo_pair p, where s = "initial_state None" and w = None]
  show ?thesis
    using t p by simp
qed

text \<open>
  C2 as stated fails in a state that already holds the pair: there two calls in
  succession emit no event at all, by the test of line 438.
\<close>

theorem chainChanged_twice_counterexample:
  "chainId (snd (handleChainChanged
                   (JObj [''chainId'' \<mapsto> JStr ''0x1'', ''networkVersion'' \<mapsto> JStr ''1''])
                   (initial_state None))) = JStr ''0x1'' \<and>
   networkVersion (snd (handleChainChanged
                   (JObj [''chainId'' \<mapsto> JStr ''0x1'', ''networkVersion'' \<mapsto> JStr ''1''])
                   (initial_state None))) = JStr ''1'' \<and>
   effects (snd (handleChainChanged
                   (JObj [''chainId'' \<mapsto> JStr ''0x1'', ''networkVersion'' \<mapsto> JStr ''1''])
                   (snd (handleChainChanged
                           (JObj [''chainId'' \<mapsto> JStr ''0x1'', ''networkVersion'' \<mapsto> JStr ''1''])
                           (snd (handleChainChanged
                                   (JObj [''chainId'' \<mapsto> JStr ''0x1'', ''networkVersion'' \<mapsto> JStr ''1''])
                                   (initial_state None))))))) =
   effects (snd (handleChainChanged
                   (JObj [''chainId'' \<mapsto> JStr ''0x1'', ''networkVersion'' \<mapsto> JStr ''1''])
                   (initial_state None)))"
  by (simp add: one_chain)
     (simp add: handleChainChanged_pair [OF networkInfo_pair] applyChainInfo_def invalidNetwork_def)


text \<open>
  C7. \<^verbatim>\<open>_handleChainChanged\<close> is to log and discard every input whose chain id is not
  a string, is empty or does not start with \<^verbatim>\<open>0x\<close>, or whose network version is not
  a string, without throwing (lemma \<open>invalid_network_discarded\<close> shows that for every
  argument but one). The argument \<^verbatim>\<open>null\<close> carries no chain id, and the default
  \<^verbatim>\<open>= {}\<close> of the parameter stands in for \<^verbatim>\<open>undefined\<close> only: the destructuring
  of line 425 throws a \<^verbatim>\<open>TypeError\<close> before the test and before \<^verbatim>\<open>log.error\<close>, so
  nothing is logged. A \<^verbatim>\<open>wallet_chainChanged\<close> notification whose \<^verbatim>\<open>result\<close> is
  \<^verbatim>\<open>null\<close> reaches the handler with that argument (line 138). The state is untouched.
\<close>

theorem handleChainChanged_null_throws:
  "handleChainChanged Null s = (Inl TypeError, s) \<and>
   handleNotification emittedNotifications
     (JObj [''method'' \<mapsto> JStr ''wallet_chainChanged'', ''result'' \<mapsto> Null]) s =
     (Inl TypeError, s) \<and>
   errorLogs (effects (snd (handleChainChanged Null s))) = errorLogs (effects s) \<and>
   fst (handleChainChanged Undefined s) = Inr () \<and>
   errorLogs (effects (snd (handleChainChanged Undefined s))) =
     errorLogs (effects s) @ [InvalidNetworkParameters]"
proof -
  have n: "handleChainChanged Null s = (Inl TypeError, s)"
    by (rule handleChainChanged_Null)
  have u: "handleChainChanged Undefined s =
             (Inr (), applyChainInfo Undefined Undefined s)"
    by (simp add: handleChainChanged_def networkInfo_def Let_def nullish_def ownProp_def)
  have i: "invalidNetwork Undefined Undefined"
    by (simp add: invalidNetwork_def)
  show ?thesis
    by (simp add: n u applyChainInfo_invalid [OF i] handleNotification_def Let_def nullish_def
          ownProp_def)
qed

theorem handleChainChanged_null_throws_witness:
  "handleChainChanged Null (initial_state None) = (Inl TypeError, initial_state None) \<and>
   handleNotification []
     (JObj [''method'' \<mapsto> JStr ''wallet_chainChanged'', ''result'' \<mapsto> Null]) (initial_state None) =
     (Inl TypeError, initial_state None) \<and>
   errorLogs (effects (snd (handleChainChanged Null (initial_state None)))) = []"
  using handleChainChanged_null_throws [of "initial_state None" "[]"]
  by simp

text \<open>
  C9 (as amended). For a payload whose method is \<^verbatim>\<open>net_version\<close>, \<^verbatim>\<open>_sendSync\<close>
  changes nothing and returns a response whose result is \<^verbatim>\<open>networkVersion || null\<close>:
  \<^verbatim>\<open>null\<close> in the initial state, and after \<^verbatim>\<open>_handleChainChanged\<close> has accepted a
  network version, that stored string when it is not empty and \<^verbatim>\<open>null\<close> when it is the
  empty string.
\<close>

theorem net_version_sync:
  assumes "field payload ''method'' = JStr ''net_version''"
  shows "sendSync msgs payload s = (Inr (syncResponse payload (js_or (networkVersion s) Null)), s) \<and>
         field (syncResponse payload (js_or (networkVersion s) Null)) ''result'' =
           (if truthy (networkVersion s) then networkVersion s else Null) \<and>
         fst (sendSync msgs payload (initial_state w)) = Inr (syncResponse payload Null) \<and>
         (if invalidNetwork c (JStr n)
          then networkVersion (applyChainInfo c (JStr n) s) = networkVersion s
          else fst (sendSync msgs payload (applyChainInfo c (JStr n) s)) =
                 Inr (syncResponse payload (if n = [] then Null else JStr n)))"
proof -
  have a: "\<And>t. sendSync msgs payload t =
             (Inr (syncResponse payload (js_or (networkVersion t) Null)), t)"
    using assms net_version_payload [OF assms] by (simp add: sendSync_def Let_def)
  have b: "invalidNetwork c (JStr n) \<Longrightarrow>
             networkVersion (applyChainInfo c (JStr n) s) = networkVersion s"
    by (simp add: applyChainInfo_invalid)
  show ?thesis
    using b by (simp add: a js_or_def syncResponse_def ownProp_def applyChainInfo_fields)
qed

theorem net_version_sync_witness:
  "fst (sendSync \<lparr>disconnected = ''lost'', unsupportedSync = (\<lambda>m. ''unsupported'')\<rparr>
          (JObj [''method'' \<mapsto> JStr ''net_version'', ''id'' \<mapsto> JNum 1])
          (snd (handleChainChanged
                  (JObj [''chainId'' \<mapsto> JStr ''0x1'', ''networkVersion'' \<mapsto> JStr ''1''])
                  (initial_state None)))) =
     Inr (JObj [''id'' \<mapsto> JNum 1, ''jsonrpc'' \<mapsto> Undefined, ''result'' \<mapsto> JStr ''1'']) \<and>
   fst (sendSync \<lparr>disconnected = ''lost'', unsupportedSync = (\<lambda>m. ''unsupported'')\<rparr>
          (JObj [''method'' \<mapsto> JStr ''net_version'', ''id'' \<mapsto> JNum 1])
          (initial_state None)) =
     Inr (JObj [''id'' \<mapsto> JNum 1, ''jsonrpc'' \<mapsto> Undefined, ''result'' \<mapsto> Null])"
proof -
  have m: "field (JObj [''method'' \<mapsto> JStr ''net_version'', ''id'' \<mapsto> JNum 1]) ''method'' =
             JStr ''net_version''"
    by (simp add: ownProp_def)
  note t = net_version_sync [OF m, where s = "initial_state None" and w = None
             and c = "JStr ''0x1''" and n = "''1''"
             and msgs = "\<lparr>disconnected = ''lost'', unsupportedSync = (\<lambda>m. ''unsupported'')\<rparr>"]
  show ?thesis
    using t
    by (simp add: handleChainChanged_pair [OF networkInfo_pair] invalidNetwork_def
          syncResponse_def ownProp_def)
qed

text \<open>
  C9 as stated fails on the empty string: \<^verbatim>\<open>_handleChainChanged\<close> accepts and stores the
  network version \<^verbatim>\<open>''\<close>, and the synchronous \<^verbatim>\<open>net_version\<close> then returns \<^verbatim>\<open>null\<close>.
\<close>

theorem net_version_sync_counterexample:
  "networkVersion (snd (handleChainChanged
                          (JObj [''chainId'' \<mapsto> JStr ''0x1'', ''networkVersion'' \<mapsto> JStr ''''])
                          (initial_state None))) = JStr '''' \<and>
   fst (sendSync \<lparr>disconnected = ''lost'', unsupportedSync = (\<lambda>m. ''unsupported'')\<rparr>
          (JObj [''method'' \<mapsto> JStr ''net_version''])
          (snd (handleChainChanged
                  (JObj [''chainId'' \<mapsto> JStr ''0x1'', ''networkVersion'' \<mapsto> JStr ''''])
                  (initial_state None)))) =
     Inr (JObj [''id'' \<mapsto> Undefined, ''jsonrpc'' \<mapsto> Undefined, ''result'' \<mapsto> Null])"
  by (simp add: handleChainChanged_pair [OF networkInfo_pair] applyChainInfo_def invalidNetwork_def
        Let_def sendSync_def nullish_def ownProp_def js_or_def syncResponse_def)

text \<open>
  C3. \<^verbatim>\<open>request\<close> is to reject every argument that is an array, not an object, or an
  object without a non-empty string \<^verbatim>\<open>method\<close> with an Invalid-Request error that
  carries the argument, leaving the state as it is (lemma \<open>request_rejects_invalid\<close>
  shows that for every such argument but one). The argument \<^verbatim>\<open>null\<close> is not an object,
  yet \<^verbatim>\<open>typeof null\<close> is \<^verbatim>\<open>'object'\<close>, so it passes the test of line 221 and the
  destructuring of line 228 throws: the promise is rejected with a \<^verbatim>\<open>TypeError\<close>, not
  with an Invalid-Request error; the state is untouched.
\<close>

theorem request_null_throws_TypeError:
  "typeof Null = TObject \<and> \<not> isArray Null \<and>
   request Null s = (Rejected TypeError, s) \<and>
   fst (request Null s) \<noteq> Rejected (InvalidRequest msg Null)"
  by (simp add: request_def nullish_def)

theorem request_null_throws_TypeError_witness:
  "request Null (initial_state None) = (Rejected TypeError, initial_state None)"
  using request_null_throws_TypeError [of "initial_state None" ExpectedObjectArgument]
  by simp


text \<open>
  C4. For a non-array payload object whose method is \<^verbatim>\<open>eth_accounts\<close> or
  \<^verbatim>\<open>eth_requestAccounts\<close>, \<^verbatim>\<open>_rpcRequest\<close> hands the engine a closure in place of the
  caller's callback. When the engine answers with a response object, the closure first
  runs the accounts update on \<^verbatim>\<open>res.result || []\<close>, with the legacy flag set exactly
  when the method is \<^verbatim>\<open>eth_accounts\<close> and with the caller's \<^verbatim>\<open>isInternal\<close>, and only
  then calls the caller's callback, on the updated state. The stored accounts are then
  the sequence that the raw result applies, and \<^verbatim>\<open>selectedAddress\<close> is what the raw
  result gives. An array payload goes to the engine with the caller's own callback.
\<close>

theorem accounts_intercept:
  assumes "ownProp m ''method'' = JStr ''eth_accounts'' \<or>
           ownProp m ''method'' = JStr ''eth_requestAccounts''"
    and "\<not> nullish res"
  shows "rpcRequest (JObj m) callback isInternal s =
           (Inr (JObj (defaultJsonrpc m)),
            perform (Handle (JObj (defaultJsonrpc m))
                       (AccountsCallback (JObj (defaultJsonrpc m)) isInternal callback)) s) \<and>
         invoke (AccountsCallback (JObj (defaultJsonrpc m)) isInternal callback) err res t =
           invoke callback err res
             (handleAccountsChanged (js_or (field res ''result'') (JArr []))
                (ownProp m ''method'' = JStr ''eth_accounts'') isInternal t) \<and>
         (case callback of
            AccountsCallback p i c \<Rightarrow> True
          | _ \<Rightarrow> invoke (AccountsCallback (JObj (defaultJsonrpc m)) isInternal callback) err res t =
                 (Inr (), perform (Call callback err res)
                            (handleAccountsChanged (js_or (field res ''result'') (JArr []))
                               (ownProp m ''method'' = JStr ''eth_accounts'') isInternal t))) \<and>
         accounts (handleAccountsChanged (js_or (field res ''result'') (JArr []))
                     (ownProp m ''method'' = JStr ''eth_accounts'') isInternal t) =
           JArr (appliedAccounts (field res ''result'')) \<and>
         selectedAddress (handleAccountsChanged (js_or (field res ''result'') (JArr []))
                     (ownProp m ''method'' = JStr ''eth_accounts'') isInternal t) =
           selectedAddress (handleAccountsChanged (field res ''result'')
                     (ownProp m ''method'' = JStr ''eth_accounts'') isInternal t) \<and>
         rpcRequest (JArr reqs) callback isInternal s =
           (Inr (JArr reqs), perform (Handle (JArr reqs) callback) s)"
proof -
  have a: "rpcRequest (JObj m) callback isInternal s =
           (Inr (JObj (defaultJsonrpc m)),
            perform (Handle (JObj (defaultJsonrpc m))
                       (AccountsCallback (JObj (defaultJsonrpc m)) isInternal callback)) s)"
    using assms(1) by (simp add: Let_def accountsIntercept_def)
  have b: "invoke (AccountsCallback (JObj (defaultJsonrpc m)) isInternal callback) err res t =
           invoke callback err res
             (handleAccountsChanged (js_or (field res ''result'') (JArr []))
                (ownProp m ''method'' = JStr ''eth_accounts'') isInternal t)"
    using assms(2) by simp
  have c: "(case callback of
            AccountsCallback p i c \<Rightarrow> True
          | _ \<Rightarrow> invoke (AccountsCallback (JObj (defaultJsonrpc m)) isInternal callback) err res t =
                 (Inr (), perform (Call callback err res)
                            (handleAccountsChanged (js_or (field res ''result'') (JArr []))
                               (ownProp m ''method'' = JStr ''eth_accounts'') isInternal t)))"
    using assms(2) by (cases callback) simp_all
  have d: "accounts (handleAccountsChanged (js_or (field res ''result'') (JArr []))
                     (ownProp m ''method'' = JStr ''eth_accounts'') isInternal t) =
           JArr (appliedAccounts (field res ''result''))"
    by (simp add: hac_accounts appliedAccounts_or_empty)
  have e: "selectedAddress (handleAccountsChanged (js_or (field res ''result'') (JArr []))
                     (ownProp m ''method'' = JStr ''eth_accounts'') isInternal t) =
           selectedAddress (handleAccountsChanged (field res ''result'')
                     (ownProp m ''method'' = JStr ''eth_accounts'') isInternal t)"
    by (simp add: hac_selected appliedAccounts_or_empty)
  have f: "rpcRequest (JArr reqs) callback isInternal s =
           (Inr (JArr reqs), perform (Handle (JArr reqs) callback) s)"
    by simp
  from a b c d e f show ?thesis by blast
qed


theorem accounts_intercept_witness:
  "\<not> nullish (JObj [''result'' \<mapsto> JArr [JStr ''0xabc'']]) \<and>
   effects (snd (rpcRequest (JObj [''method'' \<mapsto> JStr ''eth_requestAccounts'', ''params'' \<mapsto> JArr []])
                   (RpcPromiseCallback True) False (initial_state None))) =
     [Handle (JObj (defaultJsonrpc [''method'' \<mapsto> JStr ''eth_requestAccounts'', ''params'' \<mapsto> JArr []]))
        (AccountsCallback
           (JObj (defaultJsonrpc [''method'' \<mapsto> JStr ''eth_requestAccounts'', ''params'' \<mapsto> JArr []]))
           False (RpcPromiseCallback True))] \<and>
   effects (snd (invoke
                   (AccountsCallback
                      (JObj (defaultJsonrpc [''method'' \<mapsto> JStr ''eth_requestAccounts'', ''params'' \<mapsto> JArr []]))
                      False (RpcPromiseCallback True))
                   Null (JObj [''result'' \<mapsto> JArr [JStr ''0xabc'']]) (initial_state None))) =
     [Emit ''accountsChanged'' (JArr [JStr ''0xabc'']),
      Call (RpcPromiseCallback True) Null (JObj [''result'' \<mapsto> JArr [JStr ''0xabc'']])] \<and>
   selectedAddress (snd (invoke
                   (AccountsCallback
                      (JObj (defaultJsonrpc [''method'' \<mapsto> JStr ''eth_requestAccounts'', ''params'' \<mapsto> JArr []]))
                      False (RpcPromiseCallback True))
                   Null (JObj [''result'' \<mapsto> JArr [JStr ''0xabc'']]) (initial_state None))) =
     JStr ''0xabc''"
proof -
  have m: "ownProp [''method'' \<mapsto> JStr ''eth_requestAccounts'', ''params'' \<mapsto> JArr []] ''method'' =
             JStr ''eth_accounts'' \<or>
           ownProp [''method'' \<mapsto> JStr ''eth_requestAccounts'', ''params'' \<mapsto> JArr []] ''method'' =
             JStr ''eth_requestAccounts''"
    by (simp add: ownProp_def)
  have r: "\<not> nullish (JObj [''result'' \<mapsto> JArr [JStr ''0xabc'']])"
    by (simp add: nullish_def)
  note t = accounts_intercept [OF m r, where s = "initial_state None" and t = "initial_state None"
             and callback = "RpcPromiseCallback True" and isInternal = False and err = Null
             and reqs = "[]"]
  have h: "handleAccountsChanged (JArr [JStr ''0xabc'']) False False (initial_state None) =
             (initial_state None)
               \<lparr>accounts := JArr [JStr ''0xabc''], selectedAddress := JStr ''0xabc'',
                effects := [Emit ''accountsChanged'' (JArr [JStr ''0xabc''])]\<rparr>"
    by (simp add: handleAccountsChanged_def initial_state_def Let_def dequal_def appliedAccounts_def
          firstAccount_def js_or_def emit_def perform_def)
  show ?thesis
    using t r by (simp add: ownProp_def js_or_def h)
qed


text \<open>
  C10. For a payload object, \<^verbatim>\<open>_rpcRequest\<close> leaves the caller's payload and hands the
  engine the same object, with \<^verbatim>\<open>jsonrpc\<close> set to \<^verbatim>\<open>'2.0'\<close> when it was absent or
  falsy and kept otherwise, and with every other property as it was. \<^verbatim>\<open>sendAsync\<close>
  and the object form of \<^verbatim>\<open>send\<close> pass the consumer's payload to it; \<^verbatim>\<open>request\<close>
  and \<^verbatim>\<open>enable\<close> pass an object they build.
\<close>

theorem rpcRequest_defaults_jsonrpc:
  "rpcRequest (JObj m) callback isInternal s =
     (Inr (JObj (defaultJsonrpc m)),
      perform (Handle (JObj (defaultJsonrpc m))
                 (accountsIntercept (JObj (defaultJsonrpc m)) callback isInternal)) s) \<and>
   field (JObj (defaultJsonrpc m)) ''jsonrpc'' =
     (if truthy (field (JObj m) ''jsonrpc'') then field (JObj m) ''jsonrpc'' else JStr ''2.0'') \<and>
   (\<forall>k. k \<noteq> ''jsonrpc'' \<longrightarrow> defaultJsonrpc m k = m k) \<and>
   sendAsync (JObj m) callback s = rpcRequest (JObj m) callback False s \<and>
   (typeof (field (JObj m) ''method'') = TString \<and> truthy (field (JObj m) ''method'') \<longrightarrow>
      request (JObj m) s =
        promised (rpcRequest (JObj [''method'' \<mapsto> field (JObj m) ''method'',
                                    ''params'' \<mapsto> field (JObj m) ''params''])
                    (RpcPromiseCallback True) False s)) \<and>
   effects (snd (enable s)) =
     effects s @ (if sentWarningsEnable s then [] else [LogWarn EnableDeprecation]) @
       [Handle (JObj [''method'' \<mapsto> JStr ''eth_requestAccounts'', ''params'' \<mapsto> JArr [],
                      ''jsonrpc'' \<mapsto> JStr ''2.0''])
          (AccountsCallback
             (JObj [''method'' \<mapsto> JStr ''eth_requestAccounts'', ''params'' \<mapsto> JArr [],
                    ''jsonrpc'' \<mapsto> JStr ''2.0''])
             False (RpcPromiseCallback True))] \<and>
   effects (snd (send msgs (JObj m) (JFun f fm) s)) =
     effects s @ (if sentWarningsSend s then [] else [LogWarn SendDeprecation]) @
       [Handle (JObj (defaultJsonrpc m))
          (accountsIntercept (JObj (defaultJsonrpc m)) (Consumer f) False)]"
proof -
  have a: "rpcRequest (JObj m) callback isInternal s =
     (Inr (JObj (defaultJsonrpc m)),
      perform (Handle (JObj (defaultJsonrpc m))
                 (accountsIntercept (JObj (defaultJsonrpc m)) callback isInternal)) s)"
    by (simp add: Let_def)
  have b: "field (JObj (defaultJsonrpc m)) ''jsonrpc'' =
     (if truthy (field (JObj m) ''jsonrpc'') then field (JObj m) ''jsonrpc'' else JStr ''2.0'')"
    by (simp add: defaultJsonrpc_jsonrpc)
  have c: "\<forall>k. k \<noteq> ''jsonrpc'' \<longrightarrow> defaultJsonrpc m k = m k"
    by (simp add: defaultJsonrpc_other)
  have d: "sendAsync (JObj m) callback s = rpcRequest (JObj m) callback False s"
    by (simp add: sendAsync_def)
  have e: "typeof (field (JObj m) ''method'') = TString \<and> truthy (field (JObj m) ''method'') \<longrightarrow>
      request (JObj m) s =
        promised (rpcRequest (JObj [''method'' \<mapsto> field (JObj m) ''method'',
                                    ''params'' \<mapsto> field (JObj m) ''params''])
                    (RpcPromiseCallback True) False s)"
    by (simp add: request_def nullish_def Let_def del: rpcRequest.simps)
  have f: "effects (snd (enable s)) =
     effects s @ (if sentWarningsEnable s then [] else [LogWarn EnableDeprecation]) @
       [Handle (JObj [''method'' \<mapsto> JStr ''eth_requestAccounts'', ''params'' \<mapsto> JArr [],
                      ''jsonrpc'' \<mapsto> JStr ''2.0''])
          (AccountsCallback
             (JObj [''method'' \<mapsto> JStr ''eth_requestAccounts'', ''params'' \<mapsto> JArr [],
                    ''jsonrpc'' \<mapsto> JStr ''2.0''])
             False (RpcPromiseCallback True))]"
    by (simp add: enable_def Let_def defaultJsonrpc_def accountsIntercept_def ownProp_def)
  have g: "effects (snd (send msgs (JObj m) (JFun f fm) s)) =
     effects s @ (if sentWarningsSend s then [] else [LogWarn SendDeprecation]) @
       [Handle (JObj (defaultJsonrpc m))
          (accountsIntercept (JObj (defaultJsonrpc m)) (Consumer f) False)]"
    by (simp add: send_def Let_def)
  from a b c d e f g show ?thesis by blast
qed

theorem rpcRequest_defaults_jsonrpc_witness:
  "rpcRequest (JObj [''method'' \<mapsto> JStr ''eth_chainId'', ''id'' \<mapsto> JNum 7]) (Consumer 0) False
     (initial_state None) =
     (Inr (JObj [''method'' \<mapsto> JStr ''eth_chainId'', ''id'' \<mapsto> JNum 7, ''jsonrpc'' \<mapsto> JStr ''2.0'']),
      (initial_state None)
        \<lparr>effects := [Handle (JObj [''method'' \<mapsto> JStr ''eth_chainId'', ''id'' \<mapsto> JNum 7,
                                     ''jsonrpc'' \<mapsto> JStr ''2.0'']) (Consumer 0)]\<rparr>) \<and>
   defaultJsonrpc [''method'' \<mapsto> JStr ''eth_chainId'', ''id'' \<mapsto> JNum 7] ''id'' = Some (JNum 7) \<and>
   defaultJsonrpc [''method'' \<mapsto> JStr ''eth_chainId'', ''jsonrpc'' \<mapsto> JStr ''1.0''] =
     [''method'' \<mapsto> JStr ''eth_chainId'', ''jsonrpc'' \<mapsto> JStr ''1.0'']"
  using rpcRequest_defaults_jsonrpc
          [where m = "[''method'' \<mapsto> JStr ''eth_chainId'', ''id'' \<mapsto> JNum 7]"
             and callback = "Consumer 0" and isInternal = False and s = "initial_state None"
             and f = 0 and fm = Map.empty
             and msgs = "\<lparr>disconnected = ''lost'', unsupportedSync = (\<lambda>m. ''unsupported'')\<rparr>"]
  by (simp add: defaultJsonrpc_def ownProp_def accountsIntercept_def perform_def)

end
